theory Spec2Isabelle
  imports Complex_Main "HOL-Library.Word"
begin

text \<open>
  The resume text-extraction pipeline of \<open>src/lib/fileProcessor.ts\<close>: the decoder
  dispatch \<open>parseResumeFile\<close>, and \<open>extractDataFromText\<close> with its four extractors for
  personal information, experience, skills and education.
\<close>

section \<open>Strings of the source language\<close>

text \<open>
  A string of the program is a sequence of UTF-16 code units. The model covers the strings
  whose code units are all below 256, one \<^typ>\<open>char\<close> per code unit (the Latin-1 range),
  and every primitive below is what the language does on such a string.
\<close>

definition code :: "char \<Rightarrow> nat" where
  "code c = of_char c"

text \<open>White space and line terminators: what \<open>trim\<close> removes and what \<open>\s\<close> matches.\<close>

definition is_space :: "char \<Rightarrow> bool" where
  "is_space c = (code c = 9 \<or> code c = 10 \<or> code c = 11 \<or> code c = 12 \<or> code c = 13
                 \<or> code c = 32 \<or> code c = 160)"

text \<open>The class \<open>\d\<close>.\<close>

definition is_digit :: "char \<Rightarrow> bool" where
  "is_digit c = (48 \<le> code c \<and> code c \<le> 57)"

definition is_upper :: "char \<Rightarrow> bool" where
  "is_upper c = (65 \<le> code c \<and> code c \<le> 90)"

definition is_lower :: "char \<Rightarrow> bool" where
  "is_lower c = (97 \<le> code c \<and> code c \<le> 122)"

text \<open>The class \<open>\w\<close>: letters, digits and the underscore.\<close>

definition is_word :: "char \<Rightarrow> bool" where
  "is_word c = (is_upper c \<or> is_lower c \<or> is_digit c \<or> code c = 95)"

text \<open>
  \<open>toLowerCase\<close>: the upper-case letters of the range are A to Z and the accented
  capitals 192 to 222 without the multiplication sign 215; each is 32 below its lower case.
\<close>

definition lower_char :: "char \<Rightarrow> char" where
  "lower_char c =
     (if is_upper c \<or> (192 \<le> code c \<and> code c \<le> 222 \<and> code c \<noteq> 215)
      then char_of (code c + 32) else c)"

definition toLowerCase :: "string \<Rightarrow> string" where
  "toLowerCase s = map lower_char s"

definition trim :: "string \<Rightarrow> string" where
  "trim s = rev (dropWhile is_space (rev (dropWhile is_space s)))"

fun starts_with :: "string \<Rightarrow> string \<Rightarrow> bool" where
  "starts_with s [] = True"
| "starts_with [] (k # ks) = False"
| "starts_with (c # cs) (k # ks) = (c = k \<and> starts_with cs ks)"

text \<open>\<open>s.includes(k)\<close>: \<open>k\<close> occurs in \<open>s\<close> as a contiguous substring.\<close>

fun js_includes :: "string \<Rightarrow> string \<Rightarrow> bool" where
  "js_includes [] k = (k = [])"
| "js_includes (c # cs) k = (starts_with (c # cs) k \<or> js_includes cs k)"

text \<open>
  \<open>s.split(sep)\<close> for a separator that matches exactly one character: the pieces between
  the separators, at least one piece. \<open>cur\<close> holds the piece being read, reversed.
\<close>

fun split_on :: "(char \<Rightarrow> bool) \<Rightarrow> string \<Rightarrow> string \<Rightarrow> string list" where
  "split_on p cur [] = [rev cur]"
| "split_on p cur (c # cs) =
     (if p c then rev cur # split_on p [] cs else split_on p (c # cur) cs)"

definition split_newline :: "string \<Rightarrow> string list" where
  "split_newline s = split_on (\<lambda>c. code c = 10) [] s"

definition split_digit :: "string \<Rightarrow> string list" where
  "split_digit s = split_on is_digit [] s"

text \<open>\<open>xs[i]\<close>: the element, or \<open>undefined\<close> (here \<open>None\<close>) out of range.\<close>

fun index :: "'a list \<Rightarrow> nat \<Rightarrow> 'a option" where
  "index [] i = None"
| "index (x # xs) 0 = Some x"
| "index (x # xs) (Suc i) = index xs i"

section \<open>Regular expressions\<close>

text \<open>
  The patterns of the program use character classes, sequence, alternation, the greedy
  quantifiers and the word boundary. Groups are only read through the whole match, so they
  leave no trace here.
\<close>

datatype regex =
    Eps
  | Cls "char \<Rightarrow> bool"
  | Seq regex regex
  | Alt regex regex
  | Star regex
  | Opt regex
  | WordB

text \<open>
  The greedy loop of \<open>r*\<close> from position \<open>i\<close>: every way to run the body once more
  and go on, then the way that stops here. A round that consumes nothing is rejected, as
  the language's matcher does, so \<open>n\<close>, the number of characters left, bounds the rounds.
\<close>

fun star_iter :: "(nat \<Rightarrow> nat list) \<Rightarrow> nat \<Rightarrow> nat \<Rightarrow> nat list" where
  "star_iter step 0 i = [i]"
| "star_iter step (Suc n) i =
     concat (map (\<lambda>j. if i < j then star_iter step n j else []) (step i)) @ [i]"

definition word_at :: "string \<Rightarrow> nat \<Rightarrow> bool" where
  "word_at s i = (i < length s \<and> is_word (s ! i))"

text \<open>
  \<open>ends r s i\<close>: the positions where a match of \<open>r\<close> that starts at \<open>i\<close> in \<open>s\<close> can end,
  in the order in which the backtracking matcher tries them.
\<close>

fun ends :: "regex \<Rightarrow> string \<Rightarrow> nat \<Rightarrow> nat list" where
  "ends Eps s i = [i]"
| "ends (Cls p) s i = (if i < length s \<and> p (s ! i) then [Suc i] else [])"
| "ends (Seq a b) s i = concat (map (ends b s) (ends a s i))"
| "ends (Alt a b) s i = ends a s i @ ends b s i"
| "ends (Star a) s i = star_iter (ends a s) (length s - i) i"
| "ends (Opt a) s i = filter (\<lambda>j. i < j) (ends a s i) @ [i]"
| "ends WordB s i =
     (if (0 < i \<and> word_at s (i - 1)) \<noteq> word_at s i then [i] else [])"

definition Plus :: "regex \<Rightarrow> regex" where
  "Plus r = Seq r (Star r)"

definition chr :: "char \<Rightarrow> regex" where
  "chr c = Cls (\<lambda>x. x = c)"

text \<open>A literal character under the flag \<open>i\<close>.\<close>

definition chr_i :: "char \<Rightarrow> regex" where
  "chr_i c = Cls (\<lambda>x. lower_char x = lower_char c)"

fun seqs :: "regex list \<Rightarrow> regex" where
  "seqs [] = Eps"
| "seqs [r] = r"
| "seqs (r # rs) = Seq r (seqs rs)"

definition substring :: "string \<Rightarrow> nat \<Rightarrow> nat \<Rightarrow> string" where
  "substring s i e = take (e - i) (drop i s)"

text \<open>The leftmost start among \<open>starts\<close> with a match, and the end the matcher picks.\<close>

fun find_match :: "regex \<Rightarrow> string \<Rightarrow> nat list \<Rightarrow> (nat \<times> nat) option" where
  "find_match re s [] = None"
| "find_match re s (i # starts) =
     (case ends re s i of [] \<Rightarrow> find_match re s starts | e # alts \<Rightarrow> Some (i, e))"

text \<open>
  \<open>s.match(re)?.[0]\<close> for a pattern without the flag \<open>g\<close>: the matched text, or
  \<open>None\<close> when \<open>match\<close> returns \<open>null\<close>.
\<close>

definition js_match :: "regex \<Rightarrow> string \<Rightarrow> string option" where
  "js_match re s =
     (case find_match re s [0 ..< Suc (length s)] of
        None \<Rightarrow> None
      | Some (i, e) \<Rightarrow> Some (substring s i e))"

text \<open>
  The successive matches of a pattern with the flag \<open>g\<close>: each search resumes at
  \<open>from\<close>, the end of the match before (one further after an empty match).
\<close>

fun matches_from :: "regex \<Rightarrow> string \<Rightarrow> nat \<Rightarrow> nat list \<Rightarrow> string list" where
  "matches_from re s from [] = []"
| "matches_from re s from (i # starts) =
     (if i < from then matches_from re s from starts
      else (case ends re s i of
              [] \<Rightarrow> matches_from re s from starts
            | e # alts \<Rightarrow> substring s i e # matches_from re s (if e = i then Suc i else e) starts))"

text \<open>\<open>s.match(re)\<close> with the flag \<open>g\<close>: the array of all matches, or \<open>null\<close> when there is none.\<close>

definition js_match_g :: "regex \<Rightarrow> string \<Rightarrow> string list option" where
  "js_match_g re s =
     (case matches_from re s 0 [0 ..< Suc (length s)] of
        [] \<Rightarrow> None
      | m # ms \<Rightarrow> Some (m # ms))"

text \<open>\<open>x || d\<close> for a string that may be \<open>undefined\<close>: the empty string is falsy too.\<close>

definition or_else :: "string option \<Rightarrow> string \<Rightarrow> string" where
  "or_else x d = (case x of None \<Rightarrow> d | Some v \<Rightarrow> if v = [] then d else v)"

text \<open>\<open>x || null\<close>.\<close>

definition or_null :: "string option \<Rightarrow> string option" where
  "or_null x = (case x of None \<Rightarrow> None | Some v \<Rightarrow> if v = [] then None else Some v)"

section \<open>Errors\<close>

text \<open>
  A thrown value: \<open>Error msg\<close> is \<open>new Error(msg)\<close>, \<open>TypeError\<close> is what the
  runtime throws when a method is called on \<open>undefined\<close>.
\<close>

datatype error = Error string | TypeError

section \<open>The text extractor\<close>

type_synonym buffer = "8 word list"

text \<open>
  The two format decoders are external libraries: they are parameters, each returning the
  decoded text or the error it rejected with.
\<close>

type_synonym decoder = "buffer \<Rightarrow> error + string"

text \<open>The body of the \<open>try\<close> block of \<open>parseResumeFile\<close>.\<close>

definition parseResumeFile_try :: "decoder \<Rightarrow> decoder \<Rightarrow> buffer \<Rightarrow> string \<Rightarrow> error + string" where
  "parseResumeFile_try pdf mammoth buffer mimetype =
     (if mimetype = ''application/pdf'' then pdf buffer
      else if mimetype = ''application/vnd.openxmlformats-officedocument.wordprocessingml.document''
        then mammoth buffer
      else if mimetype = ''application/msword'' then mammoth buffer
      else Inl (Error ''Unsupported file type''))"

text \<open>The whole function: whatever the \<open>try\<close> block throws is caught and replaced.\<close>

definition parseResumeFile :: "decoder \<Rightarrow> decoder \<Rightarrow> buffer \<Rightarrow> string \<Rightarrow> error + string" where
  "parseResumeFile pdf mammoth buffer mimetype =
     (case parseResumeFile_try pdf mammoth buffer mimetype of
        Inr text \<Rightarrow> Inr text
      | Inl e \<Rightarrow> Inl (Error ''Failed to parse resume file''))"

section \<open>The extracted data\<close>

record PersonalInfo =
  name :: string
  email :: string
  phone :: string
  address :: string
  linkedin :: string
  website :: string

text \<open>\<open>endDate\<close> is a string or \<open>null\<close>.\<close>

record Experience =
  exp_id :: string
  company :: string
  position :: string
  exp_startDate :: string
  exp_endDate :: "string option"
  description :: string
  achievements :: "string list"

text \<open>
  \<open>Partial<Experience>\<close>, the entry under construction: every field may be
  \<open>undefined\<close>, and \<open>endDate\<close> may also be \<open>null\<close> (both are \<open>None\<close> here, both are
  falsy).
\<close>

record PartialExperience =
  p_company :: "string option"
  p_position :: "string option"
  p_startDate :: "string option"
  p_endDate :: "string option"
  p_description :: "string option"
  p_achievements :: "string list option"

record Skill =
  skill_name :: string
  level :: string
  category :: string

text \<open>\<open>gpa\<close> is a number or \<open>undefined\<close>.\<close>

record Education =
  edu_id :: string
  institution :: string
  degree :: string
  field :: string
  edu_startDate :: string
  edu_endDate :: string
  gpa :: "real option"

section \<open>Fresh identifiers\<close>

text \<open>
  \<open>uuidv4()\<close> draws on a random source. The source is an explicit state: the sequence of
  identifiers it will hand out, each call taking the first.
\<close>

type_synonym uuid_source = "nat \<Rightarrow> string"

definition uuidv4 :: "uuid_source \<Rightarrow> string \<times> uuid_source" where
  "uuidv4 g = (g 0, \<lambda>n. g (Suc n))"

section \<open>The personal-info extractor\<close>

definition alnum :: "char \<Rightarrow> bool" where
  "alnum c = (is_upper c \<or> is_lower c \<or> is_digit c)"

definition one_of :: "string \<Rightarrow> char \<Rightarrow> bool" where
  "one_of cs c = (c \<in> set cs)"

text \<open>\<open>/\b[A-Za-z0-9._%+-]+@[A-Za-z0-9.-]+\.[A-Z|a-z]{2,}\b/\<close>\<close>

definition emailRegex :: regex where
  "emailRegex =
     seqs [WordB,
           Plus (Cls (\<lambda>c. alnum c \<or> one_of ''._%+-'' c)),
           chr CHR ''@'',
           Plus (Cls (\<lambda>c. alnum c \<or> one_of ''.-'' c)),
           chr CHR ''.'',
           Cls (\<lambda>c. is_upper c \<or> is_lower c \<or> c = CHR ''|''),
           Cls (\<lambda>c. is_upper c \<or> is_lower c \<or> c = CHR ''|''),
           Star (Cls (\<lambda>c. is_upper c \<or> is_lower c \<or> c = CHR ''|'')),
           WordB]"

text \<open>\<open>/(\+?1[-.\s]?)?\(?([0-9]{3})\)?[-.\s]?([0-9]{3})[-.\s]?([0-9]{4})/\<close>\<close>

definition sep :: regex where
  "sep = Opt (Cls (\<lambda>c. one_of ''-.'' c \<or> is_space c))"

definition phoneRegex :: regex where
  "phoneRegex =
     seqs [Opt (seqs [Opt (chr CHR ''+''), chr CHR ''1'', sep]),
           Opt (chr CHR ''(''),
           Cls is_digit, Cls is_digit, Cls is_digit,
           Opt (chr CHR '')''),
           sep,
           Cls is_digit, Cls is_digit, Cls is_digit,
           sep,
           Cls is_digit, Cls is_digit, Cls is_digit, Cls is_digit]"

text \<open>\<open>/linkedin\.com\/in\/([a-zA-Z0-9-]+)/i\<close>\<close>

definition linkedinRegex :: regex where
  "linkedinRegex =
     Seq (seqs (map chr_i ''linkedin.com/in/''))
         (Plus (Cls (\<lambda>c. alnum c \<or> c = CHR ''-'')))"

text \<open>
  \<open>replace(/[^\w\s]/gi, '')\<close> keeps the characters of \<open>\w\<close> and \<open>\s\<close>;
  \<open>replace(/[^\d+()-.\s]/g, '')\<close> keeps the digits, \<open>+\<close>, \<open>(\<close>, the range from \<open>)\<close> to
  \<open>.\<close> and \<open>\s\<close>.
\<close>

definition strip_name :: "string \<Rightarrow> string" where
  "strip_name s = filter (\<lambda>c. is_word c \<or> is_space c) s"

definition strip_phone :: "string \<Rightarrow> string" where
  "strip_phone s =
     filter (\<lambda>c. is_digit c \<or> c = CHR ''+'' \<or> c = CHR ''(''
                  \<or> (code CHR '')'' \<le> code c \<and> code c \<le> code CHR ''.'') \<or> is_space c) s"

text \<open>
  No operation of \<open>extractPersonalInfo\<close> can throw: the match is read through \<open>?.\<close> and
  the first line through \<open>||\<close>, so the function is total as it stands.
\<close>

definition extractPersonalInfo :: "string list \<Rightarrow> string \<Rightarrow> PersonalInfo" where
  "extractPersonalInfo lines fullText =
     (let email = or_else (js_match emailRegex fullText) '''';
          phone = or_else (js_match phoneRegex fullText) '''';
          linkedin = or_else (js_match linkedinRegex fullText) '''';
          name = or_else (index lines 0) ''''
      in \<lparr> name = trim (strip_name name),
           email = email,
           phone = strip_phone phone,
           address = '''',
           linkedin = linkedin,
           website = '''' \<rparr>)"

section \<open>The experience extractor\<close>

definition experienceKeywords :: "string list" where
  "experienceKeywords = [''experience'', ''work history'', ''employment'', ''professional experience'']"

text \<open>\<open>/\b(19|20)\d{2}\b/g\<close>\<close>

definition dateRegex :: regex where
  "dateRegex =
     seqs [WordB,
           Alt (Seq (chr CHR ''1'') (chr CHR ''9'')) (Seq (chr CHR ''2'') (chr CHR ''0'')),
           Cls is_digit, Cls is_digit,
           WordB]"

text \<open>The entry that \<open>experiences.push\<close> receives for the pending entry \<open>cur\<close>.\<close>

definition finalize :: "string \<Rightarrow> PartialExperience \<Rightarrow> Experience" where
  "finalize i cur =
     \<lparr> exp_id = i,
       company = or_else (p_company cur) '''',
       position = or_else (p_position cur) '''',
       exp_startDate = or_else (p_startDate cur) '''',
       exp_endDate = or_null (p_endDate cur),
       description = or_else (p_description cur) '''',
       achievements = (case p_achievements cur of None \<Rightarrow> [] | Some a \<Rightarrow> a) \<rparr>"

text \<open>\<open>if (currentExperience) experiences.push({id: uuidv4(), ...})\<close>\<close>

definition push_pending ::
  "PartialExperience option \<Rightarrow> Experience list \<Rightarrow> uuid_source \<Rightarrow> Experience list \<times> uuid_source" where
  "push_pending cur experiences g =
     (case cur of
        None \<Rightarrow> (experiences, g)
      | Some c \<Rightarrow> (case uuidv4 g of (i, g') \<Rightarrow> (experiences @ [finalize i c], g')))"

text \<open>
  The new pending entry for the line \<open>raw\<close> with year tokens \<open>dates\<close>. Calling \<open>trim\<close>
  on an \<open>undefined\<close> first piece would throw.
\<close>

definition new_pending :: "string \<Rightarrow> string list \<Rightarrow> error + PartialExperience" where
  "new_pending raw dates =
     (case index (split_digit raw) 0 of
        None \<Rightarrow> Inl TypeError
      | Some piece \<Rightarrow>
          Inr \<lparr> p_company = Some (trim piece),
                p_position = Some '''',
                p_startDate = index dates 0,
                p_endDate = or_null (index dates 1),
                p_description = Some '''',
                p_achievements = Some [] \<rparr>)"

definition exp_header :: "string \<Rightarrow> bool" where
  "exp_header line = list_ex (\<lambda>keyword. js_includes line keyword) experienceKeywords"

definition exp_stop :: "string \<Rightarrow> bool" where
  "exp_stop line =
     (js_includes line ''education'' \<or> js_includes line ''skills'' \<or> js_includes line ''projects'')"

text \<open>
  The loop over the lines that are left, from the state \<open>(inExperienceSection,
  currentExperience, experiences)\<close> and the identifier source; it returns the state at the
  end of the input or at the \<open>break\<close>.
\<close>

fun experience_loop ::
  "string list \<Rightarrow> bool \<Rightarrow> PartialExperience option \<Rightarrow> Experience list \<Rightarrow> uuid_source
   \<Rightarrow> error + (PartialExperience option \<times> Experience list \<times> uuid_source)" where
  "experience_loop [] inExperienceSection cur experiences g = Inr (cur, experiences, g)"
| "experience_loop (raw # rest) inExperienceSection cur experiences g =
     (if exp_header (toLowerCase raw)
      then experience_loop rest True cur experiences g
      else if inExperienceSection then
        (if exp_stop (toLowerCase raw) then Inr (cur, experiences, g)
         else (case js_match_g dateRegex raw of
                 None \<Rightarrow> experience_loop rest inExperienceSection cur experiences g
               | Some dates \<Rightarrow>
                   if 1 \<le> length dates then
                     (case push_pending cur experiences g of
                        (experiences', g') \<Rightarrow>
                          (case new_pending raw dates of
                             Inl e \<Rightarrow> Inl e
                           | Inr c \<Rightarrow> experience_loop rest inExperienceSection (Some c) experiences' g'))
                   else experience_loop rest inExperienceSection cur experiences g))
      else experience_loop rest inExperienceSection cur experiences g)"

definition extractExperience ::
  "string list \<Rightarrow> string \<Rightarrow> uuid_source \<Rightarrow> error + (Experience list \<times> uuid_source)" where
  "extractExperience lines fullText g =
     (case experience_loop lines False None [] g of
        Inl e \<Rightarrow> Inl e
      | Inr (cur, experiences, g') \<Rightarrow> Inr (push_pending cur experiences g'))"

section \<open>The skills extractor\<close>

definition skillKeywords :: "string list" where
  "skillKeywords = [''skills'', ''technical skills'', ''core competencies'', ''technologies'']"

definition commonSkills :: "string list" where
  "commonSkills =
     [''javascript'', ''python'', ''java'', ''react'', ''node.js'', ''sql'', ''html'', ''css'',
      ''project management'', ''leadership'', ''communication'', ''teamwork'', ''problem solving'']"

definition skill_entry :: "string \<Rightarrow> Skill" where
  "skill_entry skill =
     \<lparr> skill_name = skill,
       level = ''intermediate'',
       category = (if js_includes skill ''javascript'' \<or> js_includes skill ''python''
                   then ''Programming'' else ''General'') \<rparr>"

text \<open>The body of \<open>commonSkills.forEach\<close>, and the loop itself.\<close>

definition skill_step :: "string \<Rightarrow> Skill list \<Rightarrow> string \<Rightarrow> Skill list" where
  "skill_step line skills skill =
     (if js_includes line skill then skills @ [skill_entry skill] else skills)"

definition skill_header :: "string \<Rightarrow> bool" where
  "skill_header line = list_ex (\<lambda>keyword. js_includes line keyword) skillKeywords"

definition skill_stop :: "string \<Rightarrow> bool" where
  "skill_stop line =
     (js_includes line ''experience'' \<or> js_includes line ''education'' \<or> js_includes line ''projects'')"

fun skills_loop :: "string list \<Rightarrow> bool \<Rightarrow> Skill list \<Rightarrow> Skill list" where
  "skills_loop [] inSkillsSection skills = skills"
| "skills_loop (raw # rest) inSkillsSection skills =
     (if skill_header (toLowerCase raw)
      then skills_loop rest True skills
      else if inSkillsSection then
        (if skill_stop (toLowerCase raw) then skills
         else skills_loop rest inSkillsSection (foldl (skill_step (toLowerCase raw)) skills commonSkills))
      else skills_loop rest inSkillsSection skills)"

definition extractSkills :: "string list \<Rightarrow> string \<Rightarrow> Skill list" where
  "extractSkills lines fullText = skills_loop lines False []"

section \<open>The education extractor\<close>

definition educationKeywords :: "string list" where
  "educationKeywords = [''education'', ''academic background'', ''qualifications'']"

definition degreeKeywords :: "string list" where
  "degreeKeywords = [''bachelor'', ''master'', ''phd'', ''degree'', ''diploma'', ''certificate'']"

text \<open>\<open>dates?.[k]\<close>\<close>

definition opt_index :: "string list option \<Rightarrow> nat \<Rightarrow> string option" where
  "opt_index dates k = (case dates of None \<Rightarrow> None | Some ds \<Rightarrow> index ds k)"

text \<open>
  The entry pushed for the line \<open>raw\<close>, whose lower-cased copy is \<open>line\<close>:
  \<open>dates?.[1] || dates?.[0] || ''\<close> is the first of the three that is truthy.
\<close>

definition education_entry :: "string \<Rightarrow> string \<Rightarrow> string \<Rightarrow> Education" where
  "education_entry i raw line =
     (let dates = js_match_g dateRegex raw
      in \<lparr> edu_id = i,
           institution = '''',
           degree = line,
           field = '''',
           edu_startDate = or_else (opt_index dates 0) '''',
           edu_endDate = or_else (opt_index dates 1) (or_else (opt_index dates 0) ''''),
           gpa = None \<rparr>)"

definition edu_header :: "string \<Rightarrow> bool" where
  "edu_header line = list_ex (\<lambda>keyword. js_includes line keyword) educationKeywords"

definition edu_stop :: "string \<Rightarrow> bool" where
  "edu_stop line =
     (js_includes line ''experience'' \<or> js_includes line ''skills'' \<or> js_includes line ''projects'')"

definition has_degree :: "string \<Rightarrow> bool" where
  "has_degree line = list_ex (\<lambda>keyword. js_includes line keyword) degreeKeywords"

fun education_loop ::
  "string list \<Rightarrow> bool \<Rightarrow> Education list \<Rightarrow> uuid_source \<Rightarrow> Education list \<times> uuid_source" where
  "education_loop [] inEducationSection education g = (education, g)"
| "education_loop (raw # rest) inEducationSection education g =
     (if edu_header (toLowerCase raw)
      then education_loop rest True education g
      else if inEducationSection then
        (if edu_stop (toLowerCase raw) then (education, g)
         else if has_degree (toLowerCase raw) then
           (case uuidv4 g of
              (i, g') \<Rightarrow>
                education_loop rest inEducationSection
                  (education @ [education_entry i raw (toLowerCase raw)]) g')
         else education_loop rest inEducationSection education g)
      else education_loop rest inEducationSection education g)"

definition extractEducation :: "string list \<Rightarrow> string \<Rightarrow> uuid_source \<Rightarrow> Education list \<times> uuid_source" where
  "extractEducation lines fullText g = education_loop lines False [] g"

section \<open>The pipeline\<close>

record ExtractedData =
  personal_info :: PersonalInfo
  experience :: "Experience list"
  skills :: "Skill list"
  education :: "Education list"

definition text_lines :: "string \<Rightarrow> string list" where
  "text_lines text = filter (\<lambda>line. 0 < length line) (map trim (split_newline text))"

text \<open>
  \<open>extractDataFromText\<close>: the four extractors in the order of the object literal. An
  error thrown by an extractor rejects the promise (\<open>Inl\<close>).
\<close>

definition extractDataFromText :: "uuid_source \<Rightarrow> string \<Rightarrow> error + ExtractedData" where
  "extractDataFromText g text =
     (let lines = text_lines text;
          info = extractPersonalInfo lines text
      in case extractExperience lines text g of
           Inl e \<Rightarrow> Inl e
         | Inr (exps, g1) \<Rightarrow>
             (let sks = extractSkills lines text
              in case extractEducation lines text g1 of
                   (edus, g2) \<Rightarrow>
                     Inr \<lparr> personal_info = info,
                           experience = exps,
                           skills = sks,
                           education = edus \<rparr>))"

section \<open>What the scans compute\<close>

text \<open>
  The lines that a scan treats as data, for the header test \<open>hdr\<close> and the termination
  test \<open>stop\<close> on the lower-cased line: a header line sets the flag and is skipped; inside
  the section, a line that is not a header line ends the scan when it passes the
  termination test and is data otherwise.
\<close>

fun section_lines :: "(string \<Rightarrow> bool) \<Rightarrow> (string \<Rightarrow> bool) \<Rightarrow> bool \<Rightarrow> string list \<Rightarrow> string list" where
  "section_lines hdr stop inside [] = []"
| "section_lines hdr stop inside (raw # rest) =
     (if hdr (toLowerCase raw) then section_lines hdr stop True rest
      else if inside then
        (if stop (toLowerCase raw) then [] else raw # section_lines hdr stop inside rest)
      else section_lines hdr stop inside rest)"

text \<open>
  The same lines, said without the loop: the lines after the first header line, without
  the header lines among them, up to the first of them that passes the termination test.
\<close>

definition data_lines :: "(string \<Rightarrow> bool) \<Rightarrow> (string \<Rightarrow> bool) \<Rightarrow> string list \<Rightarrow> string list" where
  "data_lines hdr stop lines =
     takeWhile (\<lambda>raw. \<not> stop (toLowerCase raw))
       (filter (\<lambda>raw. \<not> hdr (toLowerCase raw))
          (dropWhile (\<lambda>raw. \<not> hdr (toLowerCase raw)) lines))"

text \<open>One entry per element, each with the next identifier of the source.\<close>

fun with_ids :: "(string \<Rightarrow> 'a \<Rightarrow> 'b) \<Rightarrow> uuid_source \<Rightarrow> 'a list \<Rightarrow> 'b list" where
  "with_ids f g [] = []"
| "with_ids f g (x # xs) = f (g 0) x # with_ids f (\<lambda>n. g (Suc n)) xs"

text \<open>The source after \<open>k\<close> identifiers have been taken.\<close>

definition skip_ids :: "nat \<Rightarrow> uuid_source \<Rightarrow> uuid_source" where
  "skip_ids k g = (\<lambda>n. g (n + k))"

text \<open>The year tokens of a line, and the lines that have one.\<close>

definition year_tokens :: "string \<Rightarrow> string list" where
  "year_tokens raw = (case js_match_g dateRegex raw of None \<Rightarrow> [] | Some dates \<Rightarrow> dates)"

definition qualifying :: "string \<Rightarrow> bool" where
  "qualifying raw = (year_tokens raw \<noteq> [])"

definition before_first_digit :: "string \<Rightarrow> string" where
  "before_first_digit raw = takeWhile (\<lambda>c. \<not> is_digit c) raw"

text \<open>The experience entry of a qualifying line, as the specification words it.\<close>

definition experience_of :: "string \<Rightarrow> string \<Rightarrow> Experience" where
  "experience_of i raw =
     \<lparr> exp_id = i,
       company = trim (before_first_digit raw),
       position = '''',
       exp_startDate = (case year_tokens raw of [] \<Rightarrow> '''' | d # ds \<Rightarrow> d),
       exp_endDate = (case year_tokens raw of d # d' # ds \<Rightarrow> Some d' | _ \<Rightarrow> None),
       description = '''',
       achievements = [] \<rparr>"

text \<open>The skill entries of a data line: one per vocabulary term it contains, in vocabulary order.\<close>

definition line_skills :: "string \<Rightarrow> Skill list" where
  "line_skills raw = map skill_entry (filter (js_includes (toLowerCase raw)) commonSkills)"

text \<open>
  The education entry of a line, as the specification words it: the raw line as the
  degree, the first year token as the start, the second (or else the first) as the end.
\<close>

definition education_of :: "string \<Rightarrow> string \<Rightarrow> Education" where
  "education_of i raw =
     \<lparr> edu_id = i,
       institution = '''',
       degree = raw,
       field = '''',
       edu_startDate = (case year_tokens raw of [] \<Rightarrow> '''' | d # ds \<Rightarrow> d),
       edu_endDate = (case year_tokens raw of [] \<Rightarrow> '''' | [d] \<Rightarrow> d | d # d' # ds \<Rightarrow> d'),
       gpa = None \<rparr>"

definition degree_line :: "string \<Rightarrow> bool" where
  "degree_line raw = has_degree (toLowerCase raw)"

text \<open>An entry with the letter case of its degree forgotten.\<close>

definition fold_degree :: "Education \<Rightarrow> Education" where
  "fold_degree e = e\<lparr> degree := toLowerCase (degree e) \<rparr>"

text \<open>The extracted data with every generated identifier blanked.\<close>

definition blank_ids :: "ExtractedData \<Rightarrow> ExtractedData" where
  "blank_ids d =
     d\<lparr> experience := map (\<lambda>e. e\<lparr> exp_id := '''' \<rparr>) (experience d),
        education := map (\<lambda>e. e\<lparr> edu_id := '''' \<rparr>) (education d) \<rparr>"

text \<open>The education entry that the loop builds for a line.\<close>

definition entry_of_line :: "string \<Rightarrow> string \<Rightarrow> Education" where
  "entry_of_line i raw = education_entry i raw (toLowerCase raw)"

text \<open>
  The entries still to be pushed when the experience loop holds the pending entry \<open>cur\<close>
  and the qualifying lines \<open>qs\<close> lie ahead.
\<close>

fun flush :: "PartialExperience option \<Rightarrow> string list \<Rightarrow> uuid_source \<Rightarrow> Experience list" where
  "flush None qs g = with_ids experience_of g qs"
| "flush (Some c) qs g = finalize (g 0) c # with_ids experience_of (\<lambda>n. g (Suc n)) qs"

text \<open>
  Two notions for reasoning about the matcher: every character class of a pattern lies
  within \<open>P\<close>, and the span from \<open>i\<close> to \<open>e\<close> of a string lies within it and holds only
  characters of \<open>P\<close>.
\<close>

fun cls_all :: "(char \<Rightarrow> bool) \<Rightarrow> regex \<Rightarrow> bool" where
  "cls_all P Eps = True"
| "cls_all P (Cls p) = (\<forall>c. p c \<longrightarrow> P c)"
| "cls_all P (Seq a b) = (cls_all P a \<and> cls_all P b)"
| "cls_all P (Alt a b) = (cls_all P a \<and> cls_all P b)"
| "cls_all P (Star a) = cls_all P a"
| "cls_all P (Opt a) = cls_all P a"
| "cls_all P WordB = True"

definition span_ok :: "(char \<Rightarrow> bool) \<Rightarrow> string \<Rightarrow> nat \<Rightarrow> nat \<Rightarrow> bool" where
  "span_ok P s i e = (i \<le> e \<and> e \<le> length s \<and> (\<forall>j. i \<le> j \<and> j < e \<longrightarrow> P (s ! j)))"

section \<open>Lemmas on the primitives\<close>

lemma split_on_first: "\<exists>rest. split_on p cur s = (rev cur @ takeWhile (\<lambda>c. \<not> p c) s) # rest"
proof (induction s arbitrary: cur)
  case Nil
  show ?case by simp
next
  case (Cons a s)
  show ?case using Cons.IH[of "a # cur"] by (cases "p a") auto
qed

lemma index_split_digit: "index (split_digit raw) 0 = Some (before_first_digit raw)"
proof -
  obtain rest where "split_on is_digit [] raw = (rev [] @ takeWhile (\<lambda>c. \<not> is_digit c) raw) # rest"
    using split_on_first by blast
  then show ?thesis by (simp add: split_digit_def before_first_digit_def)
qed

lemma or_else_Some [simp]: "or_else (Some v) [] = v"
  by (simp add: or_else_def)

lemma or_else_None [simp]: "or_else None d = d"
  by (simp add: or_else_def)

lemma lower_char_idem: "lower_char (lower_char c) = lower_char c"
  by (auto simp: lower_char_def is_upper_def code_def)

lemma toLowerCase_idem: "toLowerCase (toLowerCase s) = toLowerCase s"
  by (simp add: toLowerCase_def lower_char_idem)

lemma skip_ids_0 [simp]: "skip_ids 0 g = g"
  by (simp add: skip_ids_def)

lemma skip_ids_Suc [simp]: "skip_ids k (\<lambda>n. g (Suc n)) = skip_ids (Suc k) g"
  by (simp add: skip_ids_def)

subsection \<open>Year tokens\<close>

lemma ends_dateRegex: "e \<in> set (ends dateRegex s i) \<Longrightarrow> e = i + 4 \<and> e \<le> length s"
  by (auto simp: dateRegex_def chr_def split: if_splits)

lemma substring_nonempty: "i < e \<Longrightarrow> e \<le> length s \<Longrightarrow> substring s i e \<noteq> []"
  by (auto simp: substring_def)

lemma matches_from_date_nonempty:
  "x \<in> set (matches_from dateRegex s k starts) \<Longrightarrow> x \<noteq> []"
proof (induction starts arbitrary: k)
  case Nil
  then show ?case by simp
next
  case (Cons i starts)
  show ?case
  proof (cases "i < k")
    case True
    with Cons show ?thesis by simp
  next
    case False
    show ?thesis
    proof (cases "ends dateRegex s i")
      case Nil
      with False Cons show ?thesis by simp
    next
      case (Cons e alts)
      then have "e \<in> set (ends dateRegex s i)" by simp
      then have e: "e = i + 4" "e \<le> length s" using ends_dateRegex by blast+
      then have "substring s i e \<noteq> []" by (intro substring_nonempty) auto
      with False Cons Cons.prems Cons.IH show ?thesis by (auto split: if_splits)
    qed
  qed
qed

lemma year_tokens_nonempty: "x \<in> set (year_tokens raw) \<Longrightarrow> x \<noteq> []"
proof -
  assume x: "x \<in> set (year_tokens raw)"
  have "year_tokens raw = matches_from dateRegex raw 0 [0 ..< Suc (length raw)]"
    unfolding year_tokens_def js_match_g_def by (simp split: list.splits)
  with x show ?thesis using matches_from_date_nonempty by metis
qed

lemma js_match_g_year:
  "js_match_g dateRegex raw = (if qualifying raw then Some (year_tokens raw) else None)"
  unfolding year_tokens_def js_match_g_def qualifying_def by (simp split: list.splits)

subsection \<open>What a match is made of\<close>

lemma span_ok_refl: "i \<le> length s \<Longrightarrow> span_ok P s i i"
  by (auto simp: span_ok_def)

lemma span_ok_trans: "span_ok P s i j \<Longrightarrow> span_ok P s j e \<Longrightarrow> span_ok P s i e"
proof -
  assume a: "span_ok P s i j" and b: "span_ok P s j e"
  have "P (s ! k)" if "i \<le> k" "k < e" for k
  proof (cases "k < j")
    case True
    with a that show ?thesis by (simp add: span_ok_def)
  next
    case False
    with b that show ?thesis by (simp add: span_ok_def)
  qed
  with a b show ?thesis by (simp add: span_ok_def)
qed

lemma star_iter_span:
  assumes step: "\<And>i e. i \<le> length s \<Longrightarrow> e \<in> set (step i) \<Longrightarrow> span_ok P s i e"
  shows "i \<le> length s \<Longrightarrow> e \<in> set (star_iter step n i) \<Longrightarrow> span_ok P s i e"
proof (induction n arbitrary: i e)
  case 0
  then show ?case by (simp add: span_ok_refl)
next
  case (Suc n)
  from Suc.prems(2) consider "e = i"
    | j where "j \<in> set (step i)" "i < j" "e \<in> set (star_iter step n j)"
    by (auto split: if_splits)
  then show ?case
  proof cases
    case 1
    with Suc.prems show ?thesis by (simp add: span_ok_refl)
  next
    case 2
    from step[OF Suc.prems(1) 2(1)] have ij: "span_ok P s i j" .
    then have "j \<le> length s" by (simp add: span_ok_def)
    from Suc.IH[OF this 2(3)] ij show ?thesis by (rule span_ok_trans[rotated])
  qed
qed

lemma ends_span:
  "cls_all P r \<Longrightarrow> i \<le> length s \<Longrightarrow> e \<in> set (ends r s i) \<Longrightarrow> span_ok P s i e"
proof (induction r arbitrary: i e)
  case Eps
  then show ?case by (simp add: span_ok_refl)
next
  case (Cls p)
  then show ?case by (auto simp: span_ok_def split: if_splits dest: le_antisym)
next
  case (Seq a b)
  from Seq.prems(3) obtain j where j: "j \<in> set (ends a s i)" "e \<in> set (ends b s j)" by auto
  from Seq.prems(1) have ca: "cls_all P a" and cb: "cls_all P b" by simp_all
  from Seq.IH(1)[OF ca Seq.prems(2) j(1)] have ij: "span_ok P s i j" .
  then have "j \<le> length s" by (simp add: span_ok_def)
  from Seq.IH(2)[OF cb this j(2)] ij show ?case by (rule span_ok_trans[rotated])
next
  case (Alt a b)
  then show ?case by auto
next
  case (Star a)
  from Star.prems(1) have ca: "cls_all P a" by simp
  have "\<And>i e. i \<le> length s \<Longrightarrow> e \<in> set (ends a s i) \<Longrightarrow> span_ok P s i e"
    using Star.IH[OF ca] .
  from star_iter_span[of s "ends a s" P, OF this Star.prems(2)] Star.prems(3)
  show ?case by simp
next
  case (Opt a)
  then show ?case by (auto simp: span_ok_refl)
next
  case WordB
  then show ?case by (auto simp: span_ok_refl split: if_splits)
qed


lemma find_match_in: "find_match re s starts = Some (i, e) \<Longrightarrow> i \<in> set starts \<and> e \<in> set (ends re s i)"
  by (induction starts) (auto split: list.splits)

lemma substring_set: "span_ok P s i e \<Longrightarrow> c \<in> set (substring s i e) \<Longrightarrow> P c"
proof -
  assume a: "span_ok P s i e" and c: "c \<in> set (substring s i e)"
  from c obtain k where k: "k < length (substring s i e)" "c = substring s i e ! k"
    by (auto simp: in_set_conv_nth)
  from a have le: "i \<le> e" "e \<le> length s" by (simp_all add: span_ok_def)
  from k(1) le have "k < e - i" by (simp add: substring_def)
  with k(2) le have "c = s ! (i + k)" by (simp add: substring_def)
  moreover from \<open>k < e - i\<close> have "i \<le> i + k" "i + k < e" by simp_all
  ultimately show "P c" using a by (simp add: span_ok_def)
qed

lemma js_match_chars:
  assumes "cls_all P re" and "js_match re s = Some m" and "c \<in> set m"
  shows "P c"
proof -
  from assms(2) obtain i e where f: "find_match re s [0 ..< Suc (length s)] = Some (i, e)"
    and m: "m = substring s i e"
    by (auto simp: js_match_def split: option.splits)
  from find_match_in[OF f] have "i \<le> length s" "e \<in> set (ends re s i)" by auto
  with assms(1) have "span_ok P s i e" by (auto intro: ends_span)
  with assms(3) m show ?thesis by (auto dest: substring_set)
qed

lemma phone_classes:
  "cls_all (\<lambda>c. is_digit c \<or> c = CHR ''+'' \<or> c = CHR ''(''
                  \<or> (code CHR '')'' \<le> code c \<and> code c \<le> code CHR ''.'') \<or> is_space c) phoneRegex"
  by (simp add: phoneRegex_def sep_def chr_def one_of_def is_digit_def code_def)

lemma strip_phone_match: "js_match phoneRegex s = Some m \<Longrightarrow> strip_phone m = m"
proof -
  assume m: "js_match phoneRegex s = Some m"
  have "\<forall>c \<in> set m. is_digit c \<or> c = CHR ''+'' \<or> c = CHR ''(''
                  \<or> (code CHR '')'' \<le> code c \<and> code c \<le> code CHR ''.'') \<or> is_space c"
    using js_match_chars[OF phone_classes m] by blast
  then show ?thesis unfolding strip_phone_def by (rule filter_True)
qed

section \<open>Lemmas on the scans\<close>

subsection \<open>Which lines are data\<close>

lemma section_lines_inside:
  "section_lines hdr stop True lines =
     takeWhile (\<lambda>raw. \<not> stop (toLowerCase raw)) (filter (\<lambda>raw. \<not> hdr (toLowerCase raw)) lines)"
  by (induction lines) simp_all

lemma section_lines_data: "section_lines hdr stop False lines = data_lines hdr stop lines"
  by (induction lines) (simp_all add: data_lines_def section_lines_inside)

lemma section_lines_same_header:
  "hdr (toLowerCase h) \<Longrightarrow> hdr (toLowerCase h') \<Longrightarrow>
   section_lines hdr stop inside (pre @ h # post) = section_lines hdr stop inside (pre @ h' # post)"
  by (induction pre arbitrary: inside) simp_all

lemma section_lines_header_inside:
  "hdr (toLowerCase h) \<Longrightarrow> inside \<or> (\<exists>x \<in> set pre. hdr (toLowerCase x)) \<Longrightarrow>
   section_lines hdr stop inside (pre @ h # post) = section_lines hdr stop inside (pre @ post)"
proof (induction pre arbitrary: inside)
  case Nil
  then show ?case by (cases post) auto
next
  case (Cons x pre)
  then show ?case by auto
qed

lemma section_lines_no_header:
  "\<forall>l \<in> set lines. \<not> hdr (toLowerCase l) \<Longrightarrow> section_lines hdr stop False lines = []"
  by (induction lines) simp_all

lemma section_lines_stop:
  "\<not> hdr (toLowerCase t) \<Longrightarrow> stop (toLowerCase t) \<Longrightarrow>
   inside \<or> (\<exists>x \<in> set pre. hdr (toLowerCase x)) \<Longrightarrow>
   section_lines hdr stop inside (pre @ t # post) = section_lines hdr stop inside pre"
  by (induction pre arbitrary: inside) auto

subsection \<open>The experience loop\<close>

lemma new_pending_ok:
  "new_pending raw dates =
     Inr \<lparr> p_company = Some (trim (before_first_digit raw)), p_position = Some [],
           p_startDate = index dates 0, p_endDate = or_null (index dates 1),
           p_description = Some [], p_achievements = Some [] \<rparr>"
  by (simp add: new_pending_def index_split_digit)

lemma finalize_new:
  assumes "qualifying raw"
  shows "finalize i \<lparr> p_company = Some (trim (before_first_digit raw)), p_position = Some [],
           p_startDate = index (year_tokens raw) 0, p_endDate = or_null (index (year_tokens raw) 1),
           p_description = Some [], p_achievements = Some [] \<rparr> = experience_of i raw"
proof (cases "year_tokens raw")
  case Nil
  with assms show ?thesis by (simp add: qualifying_def)
next
  case (Cons d ds)
  show ?thesis
  proof (cases ds)
    case Nil
    with Cons show ?thesis by (simp add: finalize_def experience_of_def or_null_def)
  next
    case (Cons d' ds')
    with \<open>year_tokens raw = d # ds\<close> have "d' \<in> set (year_tokens raw)" by simp
    then have "d' \<noteq> []" by (rule year_tokens_nonempty)
    with Cons \<open>year_tokens raw = d # ds\<close> show ?thesis
      by (simp add: finalize_def experience_of_def or_null_def)
  qed
qed

text \<open>
  From any state the loop returns a state, never an error, and the push after the loop
  leaves the entries of the pending entry and of the qualifying data lines ahead.
\<close>

lemma experience_loop_char:
  "\<exists>cur' exps' g'. experience_loop lines inside cur exps g = Inr (cur', exps', g')
     \<and> push_pending cur' exps' g' =
         (exps @ flush cur (filter qualifying (section_lines exp_header exp_stop inside lines)) g,
          skip_ids (length (filter qualifying (section_lines exp_header exp_stop inside lines))
                    + (case cur of None \<Rightarrow> 0 | Some c \<Rightarrow> 1)) g)"
proof (induction lines arbitrary: inside cur exps g)
  case Nil
  show ?case by (cases cur) (simp_all add: push_pending_def uuidv4_def skip_ids_def)
next
  case (Cons raw rest)
  show ?case
  proof (cases "exp_header (toLowerCase raw)")
    case True
    then show ?thesis using Cons.IH[of True cur exps g] by simp
  next
    case hdr: False
    show ?thesis
    proof (cases inside)
      case False
      with hdr show ?thesis using Cons.IH[of False cur exps g] by simp
    next
      case True
      show ?thesis
      proof (cases "exp_stop (toLowerCase raw)")
        case True
        with hdr \<open>inside\<close> show ?thesis
          by (cases cur) (simp_all add: push_pending_def uuidv4_def skip_ids_def)
      next
        case stop: False
        show ?thesis
        proof (cases "qualifying raw")
          case False
          with hdr stop \<open>inside\<close> show ?thesis
            using Cons.IH[of True cur exps g] by (simp add: js_match_g_year)
        next
          case q: True
          then have len: "1 \<le> length (year_tokens raw)"
            by (cases "year_tokens raw") (simp_all add: qualifying_def)
          obtain exps1 g1 where pp: "push_pending cur exps g = (exps1, g1)"
            by (cases "push_pending cur exps g")
          let ?c = "\<lparr> p_company = Some (trim (before_first_digit raw)), p_position = Some [],
                       p_startDate = index (year_tokens raw) 0,
                       p_endDate = or_null (index (year_tokens raw) 1),
                       p_description = Some [], p_achievements = Some [] \<rparr>"
          have step: "experience_loop (raw # rest) inside cur exps g
                      = experience_loop rest True (Some ?c) exps1 g1"
            using hdr stop \<open>inside\<close> q len pp by (simp add: js_match_g_year new_pending_ok)
          have sec: "section_lines exp_header exp_stop inside (raw # rest)
                     = raw # section_lines exp_header exp_stop True rest"
            using hdr stop \<open>inside\<close> by simp
          from Cons.IH[of True "Some ?c" exps1 g1] obtain cur' exps' g' where
            r: "experience_loop rest True (Some ?c) exps1 g1 = Inr (cur', exps', g')" and
            p: "push_pending cur' exps' g' =
                  (exps1 @ flush (Some ?c) (filter qualifying (section_lines exp_header exp_stop True rest)) g1,
                   skip_ids (length (filter qualifying (section_lines exp_header exp_stop True rest)) + 1) g1)"
            by auto
          have fin: "finalize (g1 0) ?c = experience_of (g1 0) raw"
            using q by (rule finalize_new)
          show ?thesis
          proof (cases cur)
            case None
            with pp have "exps1 = exps" "g1 = g" by (simp_all add: push_pending_def)
            with step r p sec q fin None show ?thesis by (simp add: skip_ids_def)
          next
            case (Some c)
            with pp have "exps1 = exps @ [finalize (g 0) c]" "g1 = (\<lambda>n. g (Suc n))"
              by (simp_all add: push_pending_def uuidv4_def)
            with step r p sec q fin Some show ?thesis by (simp add: skip_ids_def)
          qed
        qed
      qed
    qed
  qed
qed

lemma extractExperience_char:
  "extractExperience lines fullText g =
     Inr (with_ids experience_of g (filter qualifying (section_lines exp_header exp_stop False lines)),
          skip_ids (length (filter qualifying (section_lines exp_header exp_stop False lines))) g)"
proof -
  from experience_loop_char[of lines False None "[]" g] obtain cur' exps' g' where
    "experience_loop lines False None [] g = Inr (cur', exps', g')"
    "push_pending cur' exps' g' =
       (with_ids experience_of g (filter qualifying (section_lines exp_header exp_stop False lines)),
        skip_ids (length (filter qualifying (section_lines exp_header exp_stop False lines))) g)"
    by auto
  then show ?thesis by (simp add: extractExperience_def)
qed

subsection \<open>The skills loop\<close>

lemma foldl_skill_step:
  "foldl (skill_step l) acc ks = acc @ map skill_entry (filter (js_includes l) ks)"
  by (induction ks arbitrary: acc) (simp_all add: skill_step_def)

lemma skills_loop_char:
  "skills_loop lines inside acc =
     acc @ concat (map line_skills (section_lines skill_header skill_stop inside lines))"
  by (induction lines arbitrary: inside acc) (simp_all add: foldl_skill_step line_skills_def)

lemma extractSkills_char:
  "extractSkills lines fullText =
     concat (map line_skills (section_lines skill_header skill_stop False lines))"
  by (simp add: extractSkills_def skills_loop_char)

subsection \<open>The education loop\<close>

lemma education_loop_char:
  "education_loop lines inside acc g =
     (acc @ with_ids entry_of_line g (filter degree_line (section_lines edu_header edu_stop inside lines)),
      skip_ids (length (filter degree_line (section_lines edu_header edu_stop inside lines))) g)"
proof (induction lines arbitrary: inside acc g)
  case Nil
  show ?case by simp
next
  case (Cons raw rest)
  show ?case
    by (simp add: Cons.IH uuidv4_def degree_line_def entry_of_line_def)
qed

lemma extractEducation_char:
  "extractEducation lines fullText g =
     (with_ids entry_of_line g (filter degree_line (section_lines edu_header edu_stop False lines)),
      skip_ids (length (filter degree_line (section_lines edu_header edu_stop False lines))) g)"
  by (simp add: extractEducation_def education_loop_char)

lemma entry_of_line_fold: "fold_degree (entry_of_line i raw) = fold_degree (education_of i raw)"
proof (cases "year_tokens raw")
  case Nil
  then show ?thesis
    by (simp add: entry_of_line_def education_entry_def education_of_def fold_degree_def
        js_match_g_year qualifying_def opt_index_def toLowerCase_idem)
next
  case (Cons d ds)
  show ?thesis
  proof (cases ds)
    case Nil
    with Cons show ?thesis
      by (simp add: entry_of_line_def education_entry_def education_of_def fold_degree_def
          js_match_g_year qualifying_def opt_index_def toLowerCase_idem)
  next
    case (Cons d' ds')
    with \<open>year_tokens raw = d # ds\<close> have "d' \<in> set (year_tokens raw)" by simp
    then have "d' \<noteq> []" by (rule year_tokens_nonempty)
    with Cons \<open>year_tokens raw = d # ds\<close> show ?thesis
      by (simp add: entry_of_line_def education_entry_def education_of_def fold_degree_def
          js_match_g_year qualifying_def opt_index_def toLowerCase_idem or_else_def)
  qed
qed

lemma with_ids_fold:
  "map fold_degree (with_ids entry_of_line g xs) = map fold_degree (with_ids education_of g xs)"
  by (induction xs arbitrary: g) (simp_all add: entry_of_line_fold)

subsection \<open>The pipeline\<close>

lemma blank_experience:
  "map (\<lambda>e. e\<lparr> exp_id := [] \<rparr>) (with_ids experience_of g xs) = map (experience_of []) xs"
  by (induction xs arbitrary: g) (simp_all add: experience_of_def)

lemma blank_education:
  "map (\<lambda>e. e\<lparr> edu_id := [] \<rparr>) (with_ids entry_of_line g xs) = map (entry_of_line []) xs"
  by (induction xs arbitrary: g) (simp_all add: entry_of_line_def education_entry_def Let_def)

lemma extractDataFromText_char:
  "extractDataFromText g text =
     Inr \<lparr> personal_info = extractPersonalInfo (text_lines text) text,
           experience = with_ids experience_of g
              (filter qualifying (section_lines exp_header exp_stop False (text_lines text))),
           skills = concat (map line_skills (section_lines skill_header skill_stop False (text_lines text))),
           education = with_ids entry_of_line
              (skip_ids (length (filter qualifying (section_lines exp_header exp_stop False (text_lines text)))) g)
              (filter degree_line (section_lines edu_header edu_stop False (text_lines text))) \<rparr>"
  by (simp add: extractDataFromText_def Let_def extractExperience_char extractSkills_char
      extractEducation_char)

section \<open>Properties of the text extractor\<close>

text \<open>
  C1 (the code at the failing input). The claim asks for an error on an unrecognised media
  type that is distinct from the error on a decoder failure. The function throws
  \<open>Unsupported file type\<close> inside its own \<open>try\<close> block, so its \<open>catch\<close> replaces it:
  for the media type \<open>text/plain\<close> the caller receives \<open>Failed to parse resume file\<close>,
  the very error it receives when the PDF decoder rejects the buffer.
\<close>

theorem parseResumeFile_unsupported_masked:
  "parseResumeFile pdf mammoth buffer ''text/plain'' = Inl (Error ''Failed to parse resume file'')
   \<and> parseResumeFile (\<lambda>b. Inl (Error ''PDF parsing failed'')) mammoth buffer ''application/pdf''
       = parseResumeFile pdf mammoth buffer ''text/plain''"
  by (simp add: parseResumeFile_def parseResumeFile_try_def)

section \<open>Properties of the experience extractor\<close>

text \<open>
  C2 (counterexample). Inside the experience section, the line \<open>Education and experience\<close>
  contains the keyword \<open>education\<close>, yet the scan goes on: the line after it yields an
  entry. The line also contains the header keyword \<open>experience\<close>, and the header test
  comes first.
\<close>

theorem experience_terminator_counterexample:
  "js_includes (toLowerCase ''Education and experience'') ''education''
   \<and> map_sum id fst
        (extractExperience [''Experience'', ''Education and experience'', ''Acme 2020''] []
           (\<lambda>n. ''id''))
     = Inr [\<lparr> exp_id = ''id'', company = ''Acme'', position = [], exp_startDate = ''2020'',
              exp_endDate = None, description = [], achievements = [] \<rparr>]"
  by code_simp

text \<open>
  C2 (amended). Once a header line has put the scan inside the experience section, a line
  that contains \<open>education\<close>, \<open>skills\<close> or \<open>projects\<close> and no experience header keyword
  ends the scan: the result is that of the lines before it, so no line at or after it
  contributes an entry.
\<close>

theorem experience_terminator_ends_scan:
  assumes "\<exists>x \<in> set pre. exp_header (toLowerCase x)"
    and "exp_stop (toLowerCase t)"
    and "\<not> exp_header (toLowerCase t)"
  shows "extractExperience (pre @ t # post) fullText g = extractExperience pre fullText g"
  using assms by (simp add: extractExperience_char section_lines_stop)

theorem experience_terminator_ends_scan_witness:
  "(\<exists>x \<in> set [''Experience'', ''Acme 2019-2021'']. exp_header (toLowerCase x))
   \<and> exp_stop (toLowerCase ''Education'')
   \<and> \<not> exp_header (toLowerCase ''Education'')
   \<and> map_sum id fst
        (extractExperience ([''Experience'', ''Acme 2019-2021''] @ ''Education'' # [''Initech 2015-2018''])
           [] (\<lambda>n. ''id''))
     = Inr [\<lparr> exp_id = ''id'', company = ''Acme'', position = [], exp_startDate = ''2019'',
              exp_endDate = Some ''2021'', description = [], achievements = [] \<rparr>]"
proof -
  have h1: "\<exists>x \<in> set [''Experience'', ''Acme 2019-2021'']. exp_header (toLowerCase x)"
    by code_simp
  have h2: "exp_stop (toLowerCase ''Education'')"
    by code_simp
  have h3: "\<not> exp_header (toLowerCase ''Education'')"
    by code_simp
  have v: "map_sum id fst (extractExperience [''Experience'', ''Acme 2019-2021''] [] (\<lambda>n. ''id''))
     = Inr [\<lparr> exp_id = ''id'', company = ''Acme'', position = [], exp_startDate = ''2019'',
              exp_endDate = Some ''2021'', description = [], achievements = [] \<rparr>]"
    by code_simp
  show ?thesis
    using experience_terminator_ends_scan [OF h1 h2 h3, of "[''Initech 2015-2018'']" "[]" "\<lambda>n. ''id''"]
      h1 h2 h3 v by simp
qed

text \<open>
  C4 (counterexample). The line \<open>Employment at Acme 2019-2021\<close> stands inside the
  experience section and has two year tokens, yet no entry is created for it: it contains
  the header keyword \<open>employment\<close>, so the scan skips it.
\<close>

theorem experience_entry_counterexample:
  "year_tokens ''Employment at Acme 2019-2021'' = [''2019'', ''2021'']
   \<and> map_sum id fst
        (extractExperience [''Experience'', ''Employment at Acme 2019-2021''] [] (\<lambda>n. ''id''))
     = Inr []"
  by code_simp

text \<open>
  C4 (amended). The experience extractor never fails. Its data lines are the lines after
  the first experience header line, without the lines that contain an experience header
  keyword, up to the first of them that contains \<open>education\<close>, \<open>skills\<close> or
  \<open>projects\<close>. The result has one entry for every data line that has a year token, in the
  order of these lines: the company is the text before the first digit, trimmed, the start
  is the first year token, the end is the second year token or \<open>null\<close>, and position,
  description and achievements are empty. Each entry takes the next identifier of the
  source.
\<close>

theorem extractExperience_entries:
  "extractExperience lines fullText g =
     Inr (with_ids experience_of g (filter qualifying (data_lines exp_header exp_stop lines)),
          skip_ids (length (filter qualifying (data_lines exp_header exp_stop lines))) g)"
  by (simp add: extractExperience_char section_lines_data)

theorem extractExperience_entries_witness:
  "map_sum id fst
     (extractExperience
        [''Experience'', ''Software Engineer at Tech Corp 2020-2023'',
         ''Senior Developer at StartupXYZ 2018-2020''] [] (\<lambda>n. replicate (Suc n) CHR ''u''))
   = Inr [\<lparr> exp_id = ''u'', company = ''Software Engineer at Tech Corp'', position = [],
            exp_startDate = ''2020'', exp_endDate = Some ''2023'', description = [],
            achievements = [] \<rparr>,
          \<lparr> exp_id = ''uu'', company = ''Senior Developer at StartupXYZ'', position = [],
            exp_startDate = ''2018'', exp_endDate = Some ''2020'', description = [],
            achievements = [] \<rparr>]"
proof -
  have "with_ids experience_of (\<lambda>n. replicate (Suc n) CHR ''u'')
          (filter qualifying (data_lines exp_header exp_stop
             [''Experience'', ''Software Engineer at Tech Corp 2020-2023'',
              ''Senior Developer at StartupXYZ 2018-2020'']))
        = [\<lparr> exp_id = ''u'', company = ''Software Engineer at Tech Corp'', position = [],
             exp_startDate = ''2020'', exp_endDate = Some ''2023'', description = [],
             achievements = [] \<rparr>,
           \<lparr> exp_id = ''uu'', company = ''Senior Developer at StartupXYZ'', position = [],
             exp_startDate = ''2018'', exp_endDate = Some ''2020'', description = [],
             achievements = [] \<rparr>]"
    by code_simp
  then show ?thesis
    using extractExperience_entries
      [of "[''Experience'', ''Software Engineer at Tech Corp 2020-2023'',
            ''Senior Developer at StartupXYZ 2018-2020'']" "[]" "\<lambda>n. replicate (Suc n) CHR ''u''"]
    by simp
qed

section \<open>Properties of the education extractor\<close>

text \<open>
  C3 (counterexample). Inside the education section, the line
  \<open>Bachelor of Education 2016-2020\<close> contains the degree keyword \<open>bachelor\<close> and yields
  no entry, because it also contains the header keyword \<open>education\<close>. And the entry for
  the line \<open>Bachelor of Computer Science 2016-2020\<close> has the lower-cased line as its degree,
  not the line itself.
\<close>

theorem education_entry_counterexample:
  "has_degree (toLowerCase ''Bachelor of Education 2016-2020'')
   \<and> fst (extractEducation [''Education'', ''Bachelor of Education 2016-2020''] [] (\<lambda>n. ''id'')) = []
   \<and> map degree
        (fst (extractEducation [''Education'', ''Bachelor of Computer Science 2016-2020''] []
                (\<lambda>n. ''id'')))
     = [''bachelor of computer science 2016-2020'']"
  by code_simp

text \<open>
  C3 (amended). The data lines of the education extractor are the lines after the first
  education header line, without the lines that contain an education header keyword, up to
  the first of them that contains \<open>experience\<close>, \<open>skills\<close> or \<open>projects\<close>. The extractor
  produces one entry for every data line that contains a degree keyword, in the order of
  these lines. Up to the letter case of the
  degree field, the entry is the one the specification describes: the degree is the whole
  line, the start is the first year token, the end is the second year token, or the first
  when there is only one, and both dates are empty when the line has no year token.
\<close>

theorem extractEducation_entries:
  "map fold_degree (fst (extractEducation lines fullText g))
   = map fold_degree
       (with_ids education_of g (filter degree_line (data_lines edu_header edu_stop lines)))"
  by (simp add: extractEducation_char with_ids_fold section_lines_data)

theorem extractEducation_entries_witness:
  "map fold_degree
     (fst (extractEducation [''Education'', ''Bachelor of Computer Science 2016-2020''] []
             (\<lambda>n. ''id'')))
   = [fold_degree \<lparr> edu_id = ''id'', institution = [],
         degree = ''Bachelor of Computer Science 2016-2020'', field = [],
         edu_startDate = ''2016'', edu_endDate = ''2020'', gpa = None \<rparr>]"
proof -
  have "with_ids education_of (\<lambda>n. ''id'')
          (filter degree_line (data_lines edu_header edu_stop
             [''Education'', ''Bachelor of Computer Science 2016-2020'']))
        = [\<lparr> edu_id = ''id'', institution = [],
             degree = ''Bachelor of Computer Science 2016-2020'', field = [],
             edu_startDate = ''2016'', edu_endDate = ''2020'', gpa = None \<rparr>]"
    by code_simp
  then show ?thesis
    using extractEducation_entries
      [of "[''Education'', ''Bachelor of Computer Science 2016-2020'']" "[]" "\<lambda>n. ''id''"]
    by simp
qed

section \<open>Properties of the skills extractor\<close>

text \<open>
  C9 (counterexample). Inside the skills section, the line \<open>Soft skills: leadership\<close>
  contains the vocabulary term \<open>leadership\<close> and appends no entry, because it also
  contains the header keyword \<open>skills\<close>.
\<close>

theorem skills_entry_counterexample:
  "''leadership'' \<in> set commonSkills
   \<and> js_includes (toLowerCase ''Soft skills: leadership'') ''leadership''
   \<and> extractSkills [''Skills'', ''Soft skills: leadership''] [] = []"
  by code_simp

text \<open>
  C9 (amended). The data lines of the skills extractor are the lines after the first
  skills header line, without the lines that contain a skills header keyword, up to the
  first of them that contains \<open>experience\<close>, \<open>education\<close> or \<open>projects\<close>. For every data
  line, each vocabulary term that is a substring of the lower-cased line appends one
  entry, in vocabulary order and without deduplication. The
  entry has the term as its name and the level \<open>intermediate\<close>; its category is
  \<open>Programming\<close> for \<open>javascript\<close> and \<open>python\<close> and \<open>General\<close> for the eleven other
  terms. A skills section with the line \<open>JavaScript, Python, React\<close> gives the entries of
  \<open>javascript\<close>, \<open>python\<close>, \<open>java\<close> and \<open>react\<close>.
\<close>

theorem extractSkills_entries:
  "extractSkills lines fullText
     = concat (map (\<lambda>raw. map skill_entry (filter (js_includes (toLowerCase raw)) commonSkills))
                 (data_lines skill_header skill_stop lines))
   \<and> map skill_entry commonSkills
     = map (\<lambda>skill. \<lparr> skill_name = skill, level = ''intermediate'',
                       category = (if skill = ''javascript'' \<or> skill = ''python''
                                   then ''Programming'' else ''General'') \<rparr>) commonSkills
   \<and> extractSkills [''Skills'', ''JavaScript, Python, React''] fullText
     = [\<lparr> skill_name = ''javascript'', level = ''intermediate'', category = ''Programming'' \<rparr>,
        \<lparr> skill_name = ''python'', level = ''intermediate'', category = ''Programming'' \<rparr>,
        \<lparr> skill_name = ''java'', level = ''intermediate'', category = ''General'' \<rparr>,
        \<lparr> skill_name = ''react'', level = ''intermediate'', category = ''General'' \<rparr>]"
proof -
  have a: "extractSkills lines fullText
     = concat (map (\<lambda>raw. map skill_entry (filter (js_includes (toLowerCase raw)) commonSkills))
                 (data_lines skill_header skill_stop lines))"
    using extractSkills_char[of lines fullText]
    by (simp add: line_skills_def [abs_def] section_lines_data)
  have b: "map skill_entry commonSkills
     = map (\<lambda>skill. \<lparr> skill_name = skill, level = ''intermediate'',
                       category = (if skill = ''javascript'' \<or> skill = ''python''
                                   then ''Programming'' else ''General'') \<rparr>) commonSkills"
    by code_simp
  have c: "skills_loop [''Skills'', ''JavaScript, Python, React''] False []
     = [\<lparr> skill_name = ''javascript'', level = ''intermediate'', category = ''Programming'' \<rparr>,
        \<lparr> skill_name = ''python'', level = ''intermediate'', category = ''Programming'' \<rparr>,
        \<lparr> skill_name = ''java'', level = ''intermediate'', category = ''General'' \<rparr>,
        \<lparr> skill_name = ''react'', level = ''intermediate'', category = ''General'' \<rparr>]"
    by code_simp
  from a b c show ?thesis by (simp add: extractSkills_def)
qed

theorem extractSkills_entries_witness:
  "extractSkills [''Technical Skills'', ''SQL and HTML'', ''sql again'', ''Projects'', ''css''] []
   = [\<lparr> skill_name = ''sql'', level = ''intermediate'', category = ''General'' \<rparr>,
      \<lparr> skill_name = ''html'', level = ''intermediate'', category = ''General'' \<rparr>,
      \<lparr> skill_name = ''sql'', level = ''intermediate'', category = ''General'' \<rparr>]"
proof -
  have "concat (map (\<lambda>raw. map skill_entry (filter (js_includes (toLowerCase raw)) commonSkills))
          (data_lines skill_header skill_stop
             [''Technical Skills'', ''SQL and HTML'', ''sql again'', ''Projects'', ''css'']))
        = [\<lparr> skill_name = ''sql'', level = ''intermediate'', category = ''General'' \<rparr>,
           \<lparr> skill_name = ''html'', level = ''intermediate'', category = ''General'' \<rparr>,
           \<lparr> skill_name = ''sql'', level = ''intermediate'', category = ''General'' \<rparr>]"
    by code_simp
  then show ?thesis
    using extractSkills_entries
      [of "[''Technical Skills'', ''SQL and HTML'', ''sql again'', ''Projects'', ''css'']" "[]"]
    by simp
qed

section \<open>Properties of the section scans\<close>

text \<open>
  C10. In each of the three scans, a line that contains a header keyword of the target
  section is skipped whatever else it contains, a termination keyword included: from any
  state, the loop goes on with the next line, the section flag set, nothing pushed and
  nothing ended. In particular, once a header line has been seen, such a line can be
  removed from the input without changing the result of the extractor.
\<close>

theorem header_line_skipped:
  "(exp_header (toLowerCase h) \<longrightarrow>
      experience_loop (h # post) inside cur exps g = experience_loop post True cur exps g
      \<and> ((\<exists>x \<in> set pre. exp_header (toLowerCase x)) \<longrightarrow>
           extractExperience (pre @ h # post) fullText g = extractExperience (pre @ post) fullText g))
   \<and> (skill_header (toLowerCase h) \<longrightarrow>
      skills_loop (h # post) inside sks = skills_loop post True sks
      \<and> ((\<exists>x \<in> set pre. skill_header (toLowerCase x)) \<longrightarrow>
           extractSkills (pre @ h # post) fullText = extractSkills (pre @ post) fullText))
   \<and> (edu_header (toLowerCase h) \<longrightarrow>
      education_loop (h # post) inside edus g = education_loop post True edus g
      \<and> ((\<exists>x \<in> set pre. edu_header (toLowerCase x)) \<longrightarrow>
           extractEducation (pre @ h # post) fullText g = extractEducation (pre @ post) fullText g))"
  by (simp add: extractExperience_char extractSkills_char extractEducation_char
      section_lines_header_inside)

theorem header_line_skipped_witness:
  "exp_header (toLowerCase ''Education, skills and experience 2020 (bachelor, python)'')
   \<and> skill_header (toLowerCase ''Education, skills and experience 2020 (bachelor, python)'')
   \<and> edu_header (toLowerCase ''Education, skills and experience 2020 (bachelor, python)'')
   \<and> exp_stop (toLowerCase ''Education, skills and experience 2020 (bachelor, python)'')
   \<and> skill_stop (toLowerCase ''Education, skills and experience 2020 (bachelor, python)'')
   \<and> edu_stop (toLowerCase ''Education, skills and experience 2020 (bachelor, python)'')
   \<and> (\<exists>x \<in> set [''Experience'']. exp_header (toLowerCase x))
   \<and> (\<exists>x \<in> set [''Skills'']. skill_header (toLowerCase x))
   \<and> (\<exists>x \<in> set [''Education'']. edu_header (toLowerCase x))
   \<and> map_sum id fst
        (extractExperience
           ([''Experience''] @ ''Education, skills and experience 2020 (bachelor, python)''
              # [''Acme 2021'']) [] (\<lambda>n. ''id''))
     = Inr [\<lparr> exp_id = ''id'', company = ''Acme'', position = [], exp_startDate = ''2021'',
              exp_endDate = None, description = [], achievements = [] \<rparr>]
   \<and> extractSkills
        ([''Skills''] @ ''Education, skills and experience 2020 (bachelor, python)''
           # [''React'']) []
     = [\<lparr> skill_name = ''react'', level = ''intermediate'', category = ''General'' \<rparr>]
   \<and> map edu_startDate
        (fst (extractEducation
           ([''Education''] @ ''Education, skills and experience 2020 (bachelor, python)''
              # [''Master 2012'']) [] (\<lambda>n. ''id'')))
     = [''2012'']"
proof -
  let ?h = "''Education, skills and experience 2020 (bachelor, python)''"
  have h1: "exp_header (toLowerCase ?h)" by code_simp
  have h2: "skill_header (toLowerCase ?h)" by code_simp
  have h3: "edu_header (toLowerCase ?h)" by code_simp
  have s1: "exp_stop (toLowerCase ?h)" by code_simp
  have s2: "skill_stop (toLowerCase ?h)" by code_simp
  have s3: "edu_stop (toLowerCase ?h)" by code_simp
  have p1: "\<exists>x \<in> set [''Experience'']. exp_header (toLowerCase x)" by code_simp
  have p2: "\<exists>x \<in> set [''Skills'']. skill_header (toLowerCase x)" by code_simp
  have p3: "\<exists>x \<in> set [''Education'']. edu_header (toLowerCase x)" by code_simp
  have v1: "map_sum id fst (extractExperience ([''Experience''] @ [''Acme 2021'']) [] (\<lambda>n. ''id''))
     = Inr [\<lparr> exp_id = ''id'', company = ''Acme'', position = [], exp_startDate = ''2021'',
              exp_endDate = None, description = [], achievements = [] \<rparr>]"
    by code_simp
  have v2: "extractSkills ([''Skills''] @ [''React'']) []
     = [\<lparr> skill_name = ''react'', level = ''intermediate'', category = ''General'' \<rparr>]"
    by code_simp
  have v3: "map edu_startDate
        (fst (extractEducation ([''Education''] @ [''Master 2012'']) [] (\<lambda>n. ''id''))) = [''2012'']"
    by code_simp
  have e1: "extractExperience ([''Experience''] @ ?h # [''Acme 2021'']) [] (\<lambda>n. ''id'')
            = extractExperience ([''Experience''] @ [''Acme 2021'']) [] (\<lambda>n. ''id'')"
    using header_line_skipped [of ?h "[''Acme 2021'']" False None "[]" "\<lambda>n. ''id''" "[''Experience'']" "[]"]
      h1 p1 by blast
  have e2: "extractSkills ([''Skills''] @ ?h # [''React'']) [] = extractSkills ([''Skills''] @ [''React'']) []"
    using header_line_skipped [of ?h "[''React'']" False None "[]" "\<lambda>n. ''id''" "[''Skills'']" "[]"]
      h2 p2 by blast
  have e3: "extractEducation ([''Education''] @ ?h # [''Master 2012'']) [] (\<lambda>n. ''id'')
            = extractEducation ([''Education''] @ [''Master 2012'']) [] (\<lambda>n. ''id'')"
    using header_line_skipped [of ?h "[''Master 2012'']" False None "[]" "\<lambda>n. ''id''" "[''Education'']" "[]"]
      h3 p3 by blast
  show ?thesis
    unfolding e1 e2 e3 using h1 h2 h3 s1 s2 s3 p1 p2 p3 v1 v2 v3 by blast
qed

section \<open>Properties of the pipeline\<close>

text \<open>
  C6. On the empty text the pipeline returns the record whose personal-info fields are all
  the empty string and whose three lists are all empty.
\<close>

theorem extractDataFromText_empty:
  "extractDataFromText g [] =
     Inr \<lparr> personal_info = \<lparr> name = [], email = [], phone = [], address = [], linkedin = [],
                              website = [] \<rparr>,
           experience = [], skills = [], education = [] \<rparr>"
  by code_simp

theorem extractDataFromText_empty_witness:
  "extractDataFromText (\<lambda>n. ''id'') [] =
     Inr \<lparr> personal_info = \<lparr> name = [], email = [], phone = [], address = [], linkedin = [],
                              website = [] \<rparr>,
           experience = [], skills = [], education = [] \<rparr>"
  by (rule extractDataFromText_empty)

text \<open>
  C7. On every text the pipeline returns a record, never an error: the only operation of
  the extractors that could throw, \<open>trim\<close> on the first piece of a split line, always has
  a first piece. In the record every string field is a string and every list field is a
  list, as the types of the fields say; a list is empty when no line of the text contains
  a header keyword of its section.
\<close>

theorem extractDataFromText_returns:
  "\<exists>d. extractDataFromText g text = Inr d
     \<and> ((\<forall>l \<in> set (text_lines text). \<not> exp_header (toLowerCase l)) \<longrightarrow> experience d = [])
     \<and> ((\<forall>l \<in> set (text_lines text). \<not> skill_header (toLowerCase l)) \<longrightarrow> skills d = [])
     \<and> ((\<forall>l \<in> set (text_lines text). \<not> edu_header (toLowerCase l)) \<longrightarrow> education d = [])"
  by (simp add: extractDataFromText_char section_lines_no_header)

theorem extractDataFromText_returns_witness:
  "list_all (\<lambda>l. \<not> exp_header (toLowerCase l))
     (text_lines ''Just some random text, 2020 %%% python (((@@'')
   \<and> list_all (\<lambda>l. \<not> skill_header (toLowerCase l))
     (text_lines ''Just some random text, 2020 %%% python (((@@'')
   \<and> list_all (\<lambda>l. \<not> edu_header (toLowerCase l))
     (text_lines ''Just some random text, 2020 %%% python (((@@'')
   \<and> (\<exists>d. extractDataFromText (\<lambda>n. ''id'') ''Just some random text, 2020 %%% python (((@@'' = Inr d
          \<and> experience d = [] \<and> skills d = [] \<and> education d = [])"
proof -
  let ?t = "''Just some random text, 2020 %%% python (((@@''"
  have h1: "list_all (\<lambda>l. \<not> exp_header (toLowerCase l)) (text_lines ?t)" by code_simp
  have h2: "list_all (\<lambda>l. \<not> skill_header (toLowerCase l)) (text_lines ?t)" by code_simp
  have h3: "list_all (\<lambda>l. \<not> edu_header (toLowerCase l)) (text_lines ?t)" by code_simp
  from h1 h2 h3 extractDataFromText_returns [of "\<lambda>n. ''id''" ?t]
  have "\<exists>d. extractDataFromText (\<lambda>n. ''id'') ?t = Inr d
          \<and> experience d = [] \<and> skills d = [] \<and> education d = []"
    unfolding list_all_iff by blast
  with h1 h2 h3 show ?thesis by blast
qed

text \<open>
  C8. Two runs of the pipeline on the same text, with whatever identifier sources, return
  the same data once the generated identifiers are blanked.
\<close>

theorem extractDataFromText_deterministic:
  "map_sum id blank_ids (extractDataFromText g text)
   = map_sum id blank_ids (extractDataFromText g' text)"
  by (simp add: extractDataFromText_char blank_ids_def blank_experience blank_education)

theorem extractDataFromText_deterministic_witness:
  "map_sum id blank_ids (extractDataFromText (\<lambda>n. ''a'') (''Experience'' @ [CHR 0x0A] @ ''Acme 2020''))
   = map_sum id blank_ids (extractDataFromText (\<lambda>n. ''b'') (''Experience'' @ [CHR 0x0A] @ ''Acme 2020''))
   \<and> extractDataFromText (\<lambda>n. ''a'') (''Experience'' @ [CHR 0x0A] @ ''Acme 2020'')
     \<noteq> extractDataFromText (\<lambda>n. ''b'') (''Experience'' @ [CHR 0x0A] @ ''Acme 2020'')"
proof -
  have "extractDataFromText (\<lambda>n. ''a'') (''Experience'' @ [CHR 0x0A] @ ''Acme 2020'')
     \<noteq> extractDataFromText (\<lambda>n. ''b'') (''Experience'' @ [CHR 0x0A] @ ''Acme 2020'')"
    by code_simp
  then show ?thesis
    using extractDataFromText_deterministic
      [of "\<lambda>n. ''a''" "''Experience'' @ [CHR 0x0A] @ ''Acme 2020''" "\<lambda>n. ''b''"]
    by blast
qed

section \<open>Properties of the personal-info extractor\<close>

text \<open>
  C5 (counterexample). The claim has the name stripped of every character that is neither
  alphanumeric nor white space. The underscore is neither, and it stays: the text
  \<open>John_Doe\<close> gives the name \<open>John_Doe\<close>. The stripped line is also trimmed afterwards:
  the text \<open>- Jane -\<close> gives the name \<open>Jane\<close>, not the stripped line with its two spaces.
\<close>

theorem personal_name_counterexample:
  "name (extractPersonalInfo (text_lines ''John_Doe'') ''John_Doe'') = ''John_Doe''
   \<and> \<not> alnum CHR ''_'' \<and> \<not> is_space CHR ''_''
   \<and> name (extractPersonalInfo (text_lines ''- Jane -'') ''- Jane -'') = ''Jane''
   \<and> filter (\<lambda>c. alnum c \<or> is_space c) ''- Jane -'' = '' Jane ''"
  by code_simp

text \<open>
  C5 (amended). The personal-info extractor never fails. The email, the phone and the
  LinkedIn field are each the first match of their pattern in the whole text, or the empty
  string when there is none; a match may run over a line break. The name is the first
  non-empty trimmed line of the text with every character removed that is not a letter
  A to Z or a to z, a digit, the underscore or white space, and then trimmed; it is the
  empty string when the text has no such line. Address and website are empty.
\<close>

theorem extractPersonalInfo_fields:
  "extractPersonalInfo (text_lines text) text =
     \<lparr> name = (case text_lines text of
                 [] \<Rightarrow> []
               | first # rest \<Rightarrow> trim (filter (\<lambda>c. is_word c \<or> is_space c) first)),
       email = (case js_match emailRegex text of None \<Rightarrow> [] | Some m \<Rightarrow> m),
       phone = (case js_match phoneRegex text of None \<Rightarrow> [] | Some m \<Rightarrow> m),
       address = [],
       linkedin = (case js_match linkedinRegex text of None \<Rightarrow> [] | Some m \<Rightarrow> m),
       website = [] \<rparr>
   \<and> text_lines text = filter (\<lambda>line. line \<noteq> []) (map trim (split_newline text))
   \<and> phone (extractPersonalInfo (text_lines (''call 555'' @ [CHR 0x0A] @ ''123 4567''))
              (''call 555'' @ [CHR 0x0A] @ ''123 4567''))
     = ''555'' @ [CHR 0x0A] @ ''123 4567''"
proof -
  have n: "or_else (index lines 0) [] = (case lines of [] \<Rightarrow> [] | first # rest \<Rightarrow> first)" for lines
    by (cases lines) simp_all
  have m: "or_else x [] = (case x of None \<Rightarrow> [] | Some m \<Rightarrow> m)" for x
    by (cases x) simp_all
  have p: "strip_phone (case js_match phoneRegex text of None \<Rightarrow> [] | Some m \<Rightarrow> m)
           = (case js_match phoneRegex text of None \<Rightarrow> [] | Some m \<Rightarrow> m)"
  proof (cases "js_match phoneRegex text")
    case None
    then show ?thesis by (simp add: strip_phone_def)
  next
    case (Some m)
    then show ?thesis by (simp add: strip_phone_match)
  qed
  have a: "extractPersonalInfo (text_lines text) text =
     \<lparr> name = (case text_lines text of
                 [] \<Rightarrow> []
               | first # rest \<Rightarrow> trim (filter (\<lambda>c. is_word c \<or> is_space c) first)),
       email = (case js_match emailRegex text of None \<Rightarrow> [] | Some m \<Rightarrow> m),
       phone = (case js_match phoneRegex text of None \<Rightarrow> [] | Some m \<Rightarrow> m),
       address = [],
       linkedin = (case js_match linkedinRegex text of None \<Rightarrow> [] | Some m \<Rightarrow> m),
       website = [] \<rparr>"
    unfolding extractPersonalInfo_def Let_def n m p
    by (cases "text_lines text") (simp_all add: strip_name_def trim_def)
  have b: "text_lines text = filter (\<lambda>line. line \<noteq> []) (map trim (split_newline text))"
    by (simp add: text_lines_def)
  have c: "phone (extractPersonalInfo (text_lines (''call 555'' @ [CHR 0x0A] @ ''123 4567''))
              (''call 555'' @ [CHR 0x0A] @ ''123 4567''))
     = ''555'' @ [CHR 0x0A] @ ''123 4567''"
    by code_simp
  from a b c show ?thesis by blast
qed

theorem extractPersonalInfo_fields_witness:
  "extractPersonalInfo
     (text_lines (''  Dr. Jane Roe'' @ [CHR 0x0A] @ ''jane.roe@example.org, +1 555-123-4567''
                  @ [CHR 0x0A] @ ''LinkedIn.com/in/jane-roe/''))
     (''  Dr. Jane Roe'' @ [CHR 0x0A] @ ''jane.roe@example.org, +1 555-123-4567''
      @ [CHR 0x0A] @ ''LinkedIn.com/in/jane-roe/'')
   = \<lparr> name = ''Dr Jane Roe'', email = ''jane.roe@example.org'', phone = ''+1 555-123-4567'',
       address = [], linkedin = ''LinkedIn.com/in/jane-roe'', website = [] \<rparr>"
proof -
  let ?t = "''  Dr. Jane Roe'' @ [CHR 0x0A] @ ''jane.roe@example.org, +1 555-123-4567''
            @ [CHR 0x0A] @ ''LinkedIn.com/in/jane-roe/''"
  have n: "(case text_lines ?t of
              [] \<Rightarrow> []
            | first # rest \<Rightarrow> trim (filter (\<lambda>c. is_word c \<or> is_space c) first)) = ''Dr Jane Roe''"
    by code_simp
  have e: "js_match emailRegex ?t = Some ''jane.roe@example.org''"
    by code_simp
  have p: "js_match phoneRegex ?t = Some ''+1 555-123-4567''"
    by code_simp
  have l: "js_match linkedinRegex ?t = Some ''LinkedIn.com/in/jane-roe''"
    by code_simp
  from extractPersonalInfo_fields [of ?t]
  have "extractPersonalInfo (text_lines ?t) ?t =
     \<lparr> name = (case text_lines ?t of
                 [] \<Rightarrow> []
               | first # rest \<Rightarrow> trim (filter (\<lambda>c. is_word c \<or> is_space c) first)),
       email = (case js_match emailRegex ?t of None \<Rightarrow> [] | Some m \<Rightarrow> m),
       phone = (case js_match phoneRegex ?t of None \<Rightarrow> [] | Some m \<Rightarrow> m),
       address = [],
       linkedin = (case js_match linkedinRegex ?t of None \<Rightarrow> [] | Some m \<Rightarrow> m),
       website = [] \<rparr>"
    by blast
  then show ?thesis unfolding n e p l by simp
qed

end
